theory Spec2Isabelle
  imports Complex_Main "HOL-Library.AList"
begin

section \<open>Python values and the builtins that configbase calls\<close>

text \<open>
  The configuration framework of \<^verbatim>\<open>configbase.py\<close> is dynamically typed. Its values
  are represented by the datatype \<open>pyval\<close>: \<open>None\<close>, booleans, unbounded integers,
  floats, strings, lists, dictionaries with string keys and members of \<open>enum.Enum\<close>
  classes (class name and member name). A NumPy array of floats, which
  \<open>FloatRangeParameter\<close> stores, is represented by the list of its elements.

  A float is either a finite number, an infinity or NaN. A finite float is represented
  by the number it denotes, as a rational: the range of binary64 is modelled (an integer
  beyond it does not convert), its rounding error is not. Python compares integers with
  floats exactly, so comparisons are comparisons of rationals.
\<close>

datatype pyfloat = Fin rat | PosInf | NegInf | NaN

datatype pyval =
    PNone
  | PBool bool
  | PInt int
  | PFloat pyfloat
  | PStr string
  | PList "pyval list"
  | PDict "(string \<times> pyval) list"
  | PEnum string string

text \<open>An exception is its class and its message; a raising call returns \<open>Inl\<close>.
  \<open>CallbackError\<close> stands for whatever a callable that was handed to the framework raises
  (a \<open>get_fun\<close>, a \<open>set_fun\<close>, an event handler): the class of such an exception is the
  callable's own and is not modelled, the exception is not one that configbase raises.\<close>

datatype exc =
  ValueError | TypeError | AttributeError | KeyError | OverflowError | CallbackError

type_synonym error = "exc \<times> string"

type_synonym 'a res = "error + 'a"

subsection \<open>Floats\<close>

text \<open>\<open>a < b\<close> on floats: every comparison with NaN is false.\<close>

fun fl_less :: "pyfloat \<Rightarrow> pyfloat \<Rightarrow> bool" where
  "fl_less (Fin a) (Fin b) = (a < b)"
| "fl_less (Fin a) PosInf = True"
| "fl_less NegInf (Fin b) = True"
| "fl_less NegInf PosInf = True"
| "fl_less _ _ = False"

text \<open>\<open>float.is_integer\<close>: false for the infinities and NaN.\<close>

fun is_integer :: "pyfloat \<Rightarrow> bool" where
  "is_integer (Fin q) = (q = of_int \<lfloor>q\<rfloor>)"
| "is_integer _ = False"

definition pow10 :: "int \<Rightarrow> rat" where
  "pow10 n = (if 0 \<le> n then 10 ^ nat n else 1 / 10 ^ nat (- n))"

definition round_half_even :: "rat \<Rightarrow> int" where
  "round_half_even y =
     (let f = \<lfloor>y\<rfloor>; d = y - of_int f
      in if d < 1 / 2 then f else if 1 / 2 < d then f + 1 else if even f then f else f + 1)"

text \<open>\<open>round(x, n)\<close> on a float: to the nearest multiple of \<open>10 ** -n\<close>, ties to even;
  the infinities and NaN are returned unchanged.\<close>

fun py_round :: "pyfloat \<Rightarrow> int \<Rightarrow> pyfloat" where
  "py_round (Fin q) n = Fin (of_int (round_half_even (q * pow10 n)) / pow10 n)"
| "py_round x n = x"

text \<open>The least magnitude that no longer rounds to a finite binary64 number.\<close>

definition float_overflow :: rat where
  "float_overflow = 2 ^ 1024 - 2 ^ 970"

definition range_float :: "rat \<Rightarrow> pyfloat" where
  "range_float q = (if float_overflow \<le> \<bar>q\<bar> then (if q < 0 then NegInf else PosInf) else Fin q)"

subsection \<open>Parsing numbers from strings\<close>

definition is_space :: "char \<Rightarrow> bool" where
  "is_space c = (let n = (of_char c :: nat) in (9 \<le> n \<and> n \<le> 13) \<or> (28 \<le> n \<and> n \<le> 32))"

definition is_digit :: "char \<Rightarrow> bool" where
  "is_digit c = (let n = (of_char c :: nat) in 48 \<le> n \<and> n \<le> 57)"

definition digit_val :: "char \<Rightarrow> nat" where
  "digit_val c = of_char c - 48"

definition to_lower :: "char \<Rightarrow> char" where
  "to_lower c = (let n = (of_char c :: nat) in if 65 \<le> n \<and> n \<le> 90 then char_of (n + 32) else c)"

definition strip :: "string \<Rightarrow> string" where
  "strip s = rev (dropWhile is_space (rev (dropWhile is_space s)))"

definition sign_split :: "string \<Rightarrow> int \<times> string" where
  "sign_split s =
     (case s of
        [] \<Rightarrow> (1, s)
      | c # cs \<Rightarrow> if c = CHR ''-'' then (- 1, cs) else if c = CHR ''+'' then (1, cs) else (1, s))"

text \<open>A run of digits in which single underscores may separate digits; the digits read
  and the rest of the string.\<close>

fun digitpart :: "string \<Rightarrow> nat list \<times> string" where
  "digitpart [] = ([], [])"
| "digitpart (c # cs) =
     (if is_digit c then
        (let (ds, r) =
           (case cs of
              [] \<Rightarrow> ([], [])
            | u # cs' \<Rightarrow>
                if u = CHR ''_'' \<and> (case cs' of [] \<Rightarrow> False | d # _ \<Rightarrow> is_digit d)
                then digitpart cs' else digitpart cs)
         in (digit_val c # ds, r))
      else ([], c # cs))"

definition digits_value :: "nat list \<Rightarrow> nat" where
  "digits_value ds = foldl (\<lambda>a d. 10 * a + d) 0 ds"

text \<open>\<open>int(s)\<close> on a string, base 10: whitespace, a sign, digits.\<close>

definition int_of_string :: "string \<Rightarrow> int option" where
  "int_of_string s =
     (let (sg, t) = sign_split (strip s); (ds, r) = digitpart t
      in if ds \<noteq> [] \<and> r = [] then Some (sg * int (digits_value ds)) else None)"

text \<open>\<open>float(s)\<close> on a string: whitespace, a sign, then \<open>inf\<close>, \<open>infinity\<close>, \<open>nan\<close> or a
  decimal number with an optional fraction and exponent.\<close>

definition float_of_string :: "string \<Rightarrow> pyfloat option" where
  "float_of_string s =
     (let (sg, t) = sign_split (strip s); w = map to_lower t
      in if w = ''inf'' \<or> w = ''infinity'' then Some (if sg < 0 then NegInf else PosInf)
         else if w = ''nan'' then Some NaN
         else
           (let (ip, r1) = digitpart t;
                (fp, r2) =
                  (case r1 of
                     [] \<Rightarrow> ([], r1)
                   | c # cs \<Rightarrow> if c = CHR ''.'' then digitpart cs else ([], r1));
                ex =
                  (case r2 of
                     [] \<Rightarrow> Some (0, r2)
                   | c # cs \<Rightarrow>
                       if c = CHR ''e'' \<or> c = CHR ''E'' then
                         (let (es, u) = sign_split cs; (ed, r3) = digitpart u
                          in if ed \<noteq> [] then Some (es * int (digits_value ed), r3) else None)
                       else Some (0, r2))
            in if ip = [] \<and> fp = [] then None
               else
                 (case ex of
                    None \<Rightarrow> None
                  | Some (e, r3) \<Rightarrow>
                      if r3 \<noteq> [] then None
                      else Some (range_float (of_int sg * of_nat (digits_value (ip @ fp))
                                   * pow10 (e - int (length fp)))))))"

subsection \<open>Conversions\<close>

text \<open>\<open>float(value)\<close>.\<close>

fun py_float :: "pyval \<Rightarrow> pyfloat res" where
  "py_float (PFloat f) = Inr f"
| "py_float (PInt n) =
     (if float_overflow \<le> \<bar>of_int n\<bar> then Inl (OverflowError, ''int too large to convert to float'')
      else Inr (Fin (of_int n)))"
| "py_float (PBool b) = Inr (Fin (if b then 1 else 0))"
| "py_float (PStr s) =
     (case float_of_string s of
        None \<Rightarrow> Inl (ValueError, ''could not convert string to float'')
      | Some f \<Rightarrow> Inr f)"
| "py_float _ = Inl (TypeError, ''float() argument must be a string or a real number'')"

text \<open>\<open>int(value)\<close>: a float is truncated towards zero.\<close>

fun py_int :: "pyval \<Rightarrow> int res" where
  "py_int (PInt n) = Inr n"
| "py_int (PBool b) = Inr (if b then 1 else 0)"
| "py_int (PFloat (Fin q)) = Inr (if 0 \<le> q then \<lfloor>q\<rfloor> else \<lceil>q\<rceil>)"
| "py_int (PFloat NaN) = Inl (ValueError, ''cannot convert float NaN to integer'')"
| "py_int (PFloat _) = Inl (OverflowError, ''cannot convert float infinity to integer'')"
| "py_int (PStr s) =
     (case int_of_string s of
        None \<Rightarrow> Inl (ValueError, ''invalid literal for int() with base 10'')
      | Some n \<Rightarrow> Inr n)"
| "py_int _ = Inl (TypeError, ''int() argument must be a string or a real number'')"

text \<open>\<open>bool(value)\<close>.\<close>

fun py_bool :: "pyval \<Rightarrow> bool" where
  "py_bool PNone = False"
| "py_bool (PBool b) = b"
| "py_bool (PInt n) = (n \<noteq> 0)"
| "py_bool (PFloat (Fin q)) = (q \<noteq> 0)"
| "py_bool (PFloat _) = True"
| "py_bool (PStr s) = (s \<noteq> [])"
| "py_bool (PList xs) = (xs \<noteq> [])"
| "py_bool (PDict d) = (d \<noteq> [])"
| "py_bool (PEnum _ _) = True"

text \<open>\<open>list(value)\<close>: a string gives its characters, a dictionary its keys.\<close>

fun py_list :: "pyval \<Rightarrow> pyval list res" where
  "py_list (PList xs) = Inr xs"
| "py_list (PStr s) = Inr (map (\<lambda>c. PStr [c]) s)"
| "py_list (PDict d) = Inr (map (\<lambda>kv. PStr (fst kv)) d)"
| "py_list _ = Inl (TypeError, ''object is not iterable'')"

text \<open>\<open>isinstance(value, int)\<close>: \<open>bool\<close> is a subclass of \<open>int\<close>.\<close>

fun is_int_instance :: "pyval \<Rightarrow> bool" where
  "is_int_instance (PInt _) = True"
| "is_int_instance (PBool _) = True"
| "is_int_instance _ = False"

section \<open>Parameters\<close>

text \<open>
  The parameter classes are descriptors declared as class attributes of a configuration
  class. \<open>kind\<close> names the class of a parameter and holds what only that class has:
  the value of a \<open>ConstantParameter\<close>, the enum class (its name and its member names) of
  an \<open>EnumParameter\<close>. The record holds the attributes that validation and persistence
  read; labels, help texts, units and the widget class belong to the GUI and are left out.
  \<open>limits\<close> is \<open>None\<close> or a pair whose components are \<open>None\<close> or a number.
  \<open>default_value\<close> is the attribute after \<open>ValueParameter.__init__\<close>, see
  \<open>ValueParameter_init\<close>.

  \<open>VirtualParameter\<close> is the class that \<open>get_virtual_parameter_class(base_class)\<close>
  returns: a subclass of the class \<open>base_class\<close> with a \<open>get_fun\<close> and an optional
  \<open>set_fun\<close>. Both are callables on the object; they are represented by functions on
  what the parameters store for the object (\<open>store\<close>). \<open>get_fun\<close> returns a value or
  raises (\<open>Inl\<close>, with a message); \<open>set_fun\<close> returns the store it leaves and the message
  it raised with, if it raised.
\<close>

type_synonym store = "(string \<times> pyval) list"

datatype kind =
    ConstantParameter pyval
  | ValueParameter
  | BoolParameter
  | EnumParameter string "string list"
  | IntParameter
  | FloatParameter
  | FloatRangeParameter
  | SensorParameter
  | ClassParameter
  | VirtualParameter kind "store \<Rightarrow> string + pyval"
      "(pyval \<Rightarrow> store \<Rightarrow> string option \<times> store) option"

text \<open>The class below the virtual classes: the one whose \<open>dump\<close> and \<open>load\<close> a
  parameter has.\<close>

fun base_kind :: "kind \<Rightarrow> kind" where
  "base_kind (VirtualParameter b g s) = base_kind b"
| "base_kind k = k"

record parameter =
  kind :: kind
  does_dump :: bool
  order :: int
  is_optional :: bool
  default_value :: pyval
  limits :: "(pyfloat option \<times> pyfloat option) option"
  decimals :: int

text \<open>The limit check that \<open>IntParameter._sanitize\<close> and \<open>FloatParameter._sanitize\<close>
  both end with.\<close>

definition check_limits :: "parameter \<Rightarrow> pyfloat \<Rightarrow> unit res" where
  "check_limits p x =
     (case limits p of
        None \<Rightarrow> Inr ()
      | Some (lower, upper) \<Rightarrow>
          if (case lower of None \<Rightarrow> False | Some l \<Rightarrow> fl_less x l)
          then Inl (ValueError, ''Given value is too low'')
          else if (case upper of None \<Rightarrow> False | Some u \<Rightarrow> fl_less u x)
          then Inl (ValueError, ''Given value is too high'')
          else Inr ())"

definition IntParameter_sanitize :: "parameter \<Rightarrow> pyval \<Rightarrow> pyval res" where
  "IntParameter_sanitize p v =
     (if (case v of PFloat f \<Rightarrow> \<not> is_integer f | _ \<Rightarrow> False)
      then Inl (ValueError, ''Not an integer'')
      else
        (case py_int v of
           Inl e \<Rightarrow> if fst e = ValueError then Inl (ValueError, ''Not a valid integer'') else Inl e
         | Inr n \<Rightarrow>
             (case check_limits p (Fin (of_int n)) of
                Inl e \<Rightarrow> Inl e
              | Inr _ \<Rightarrow> Inr (PInt n))))"

definition FloatParameter_sanitize :: "parameter \<Rightarrow> pyval \<Rightarrow> pyfloat res" where
  "FloatParameter_sanitize p v =
     (case py_float v of
        Inl e \<Rightarrow> if fst e = ValueError then Inl (ValueError, ''Not a valid number'') else Inl e
      | Inr f \<Rightarrow>
          (let r = py_round f (decimals p)
           in case check_limits p r of
                Inl e \<Rightarrow> Inl e
              | Inr _ \<Rightarrow> Inr r))"

definition FloatRangeParameter_sanitize :: "parameter \<Rightarrow> pyval \<Rightarrow> pyval res" where
  "FloatRangeParameter_sanitize p arg =
     (case py_list arg of
        Inl e \<Rightarrow> Inl (ValueError, ''Not a valid range'')
      | Inr vs \<Rightarrow>
          if length vs \<noteq> 2 then Inl (ValueError, ''Given range does not have two values'')
          else
            (case FloatParameter_sanitize p (vs ! 0) of
               Inl e \<Rightarrow> Inl e
             | Inr a \<Rightarrow>
                 (case FloatParameter_sanitize p (vs ! 1) of
                    Inl e \<Rightarrow> Inl e
                  | Inr b \<Rightarrow>
                      if fl_less b a then Inl (ValueError, ''Invalid range'')
                      else Inr (PList [PFloat a, PFloat b]))))"

definition SensorParameter_sanitize :: "pyval \<Rightarrow> pyval res" where
  "SensorParameter_sanitize arg =
     (if is_int_instance arg then Inr (PList [arg])
      else
        (case arg of
           PList xs \<Rightarrow>
             if list_all is_int_instance xs then Inr (PList xs)
             else Inl (ValueError, ''sensor(s) must be an int or a list of ints'')
         | _ \<Rightarrow> Inl (ValueError, ''sensor(s) must be an int or a list of ints'')))"

text \<open>\<open>self._sanitize(value)\<close>: the method of the parameter's class;
  \<open>ValueParameter._sanitize\<close>, which \<open>EnumParameter\<close> inherits, returns the value as it is;
  \<open>VirtualParameter._sanitize\<close> is \<open>pass\<close> and returns \<open>None\<close>.\<close>

definition dispatch_sanitize :: "parameter \<Rightarrow> pyval \<Rightarrow> pyval res" where
  "dispatch_sanitize p v =
     (case kind p of
        BoolParameter \<Rightarrow> Inr (PBool (py_bool v))
      | IntParameter \<Rightarrow> IntParameter_sanitize p v
      | FloatParameter \<Rightarrow>
          (case FloatParameter_sanitize p v of Inl e \<Rightarrow> Inl e | Inr f \<Rightarrow> Inr (PFloat f))
      | FloatRangeParameter \<Rightarrow> FloatRangeParameter_sanitize p v
      | SensorParameter \<Rightarrow> SensorParameter_sanitize v
      | VirtualParameter b g s \<Rightarrow> Inr PNone
      | _ \<Rightarrow> Inr v)"

text \<open>\<open>ValueParameter.sanitize\<close>: \<open>None\<close> passes unchecked when the parameter is optional.\<close>

definition sanitize :: "parameter \<Rightarrow> pyval \<Rightarrow> pyval res" where
  "sanitize p v = (if \<not> (is_optional p \<and> v = PNone) then dispatch_sanitize p v else Inr v)"


text \<open>\<open>ValueParameter.__init__\<close> ends with
  \<open>self.default_value = self.sanitize(self.default_value)\<close>: declaring a parameter with an
  invalid default raises, a declared parameter holds a sanitized default.\<close>

definition ValueParameter_init :: "parameter \<Rightarrow> parameter res" where
  "ValueParameter_init p =
     (case sanitize p (default_value p) of
        Inl e \<Rightarrow> Inl e
      | Inr v \<Rightarrow> Inr (p\<lparr>default_value := v\<rparr>))"

section \<open>Configuration classes and objects\<close>

text \<open>
  A subclass of \<open>Config\<close> is its name, its \<open>VERSION\<close> (\<open>None\<close> in \<open>Config\<close>, an integer
  tag in a versioned subclass), its attributes that are \<open>Parameter\<close> instances in the
  order of \<open>dir\<close>, each under one name, and the names of the other attributes that the
  subclass adds.

  A configuration object is what the parameters store for it in their \<open>values\<close>
  dictionaries (\<open>param_values\<close>, keyed by the name of the parameter), and the contents of its
  \<open>_event_handlers\<close> set in iteration order. A handler is a callable on the object: it
  is represented by a number that names it and by a function on what the parameters store
  for the object, which returns the store it leaves and the message it raised with, if it
  raised. \<open>calls\<close> records each call of a handler with the values the handler finds
  stored.
\<close>

record config_class =
  cname :: string
  VERSION :: "int option"
  params :: "(string \<times> parameter) list"
  class_attrs :: "string list"

type_synonym handler = "nat \<times> (store \<Rightarrow> string option \<times> store)"

record config =
  param_values :: store
  event_handlers :: "handler list"
  calls :: "(nat \<times> store) list"

text \<open>\<open>ValueParameter.__get__\<close>: the stored value, the default when none is stored.
  The result is a copy; as a value it is the same (the sharing of objects is the subject
  of the last section).\<close>

definition ValueParameter_get :: "parameter \<Rightarrow> string \<Rightarrow> 'a config_scheme \<Rightarrow> pyval" where
  "ValueParameter_get p k cfg =
     (case map_of (param_values cfg) k of None \<Rightarrow> default_value p | Some v \<Rightarrow> v)"

text \<open>\<open>ValueParameter.__set__\<close>: nothing is stored when \<open>sanitize\<close> raises.\<close>

definition ValueParameter_set ::
  "parameter \<Rightarrow> string \<Rightarrow> pyval \<Rightarrow> 'a config_scheme \<Rightarrow> unit res \<times> 'a config_scheme" where
  "ValueParameter_set p k v cfg =
     (case sanitize p v of
        Inl e \<Rightarrow> (Inl e, cfg)
      | Inr w \<Rightarrow> (Inr (), cfg\<lparr>param_values := AList.update k w (param_values cfg)\<rparr>))"

text \<open>\<open>self.__set__(obj, value)\<close>, the method of the parameter's class:
  \<open>ConstantParameter\<close> and \<open>ClassParameter\<close> refuse; \<open>VirtualParameter\<close> refuses without
  a \<open>set_fun\<close> and calls it otherwise, sanitizing and storing nothing itself; the other
  classes have \<open>ValueParameter.__set__\<close>.\<close>

definition Parameter_set ::
  "parameter \<Rightarrow> string \<Rightarrow> pyval \<Rightarrow> 'a config_scheme \<Rightarrow> unit res \<times> 'a config_scheme" where
  "Parameter_set p k v cfg =
     (case kind p of
        ConstantParameter _ \<Rightarrow> (Inl (AttributeError, ''Unsettable parameter''), cfg)
      | ClassParameter \<Rightarrow> (Inl (AttributeError, ''Unsettable parameter''), cfg)
      | VirtualParameter b g s \<Rightarrow>
          (case s of
             None \<Rightarrow> (Inl (AttributeError, ''Unsettable parameter''), cfg)
           | Some f \<Rightarrow>
               (case f v (param_values cfg) of
                  (None, st) \<Rightarrow> (Inr (), cfg\<lparr>param_values := st\<rparr>)
                | (Some m, st) \<Rightarrow> (Inl (CallbackError, m), cfg\<lparr>param_values := st\<rparr>)))
      | _ \<Rightarrow> ValueParameter_set p k v cfg)"



text \<open>\<open>self.enum[value]\<close>: the member of that name.\<close>

definition enum_getitem :: "string \<Rightarrow> string list \<Rightarrow> pyval \<Rightarrow> pyval res" where
  "enum_getitem c names v =
     (case v of
        PStr s \<Rightarrow> if s \<in> set names then Inr (PEnum c s) else Inl (KeyError, s)
      | PList _ \<Rightarrow> Inl (TypeError, ''unhashable type'')
      | PDict _ \<Rightarrow> Inl (TypeError, ''unhashable type'')
      | _ \<Rightarrow> Inl (KeyError, []))"

text \<open>\<open>p.load(self, value)\<close> as \<open>Config._loads\<close> calls it; the \<open>load\<close> methods end with
  \<open>self.__set__(obj, value)\<close>.\<close>

definition Parameter_load ::
  "parameter \<Rightarrow> string \<Rightarrow> pyval \<Rightarrow> 'a config_scheme \<Rightarrow> unit res \<times> 'a config_scheme" where
  "Parameter_load p k v cfg =
     (case base_kind (kind p) of
        ConstantParameter _ \<Rightarrow>
          (Inl (TypeError, ''load() takes 1 positional argument but 3 were given''), cfg)
      | ClassParameter \<Rightarrow>
          (Inl (TypeError, ''load() takes 1 positional argument but 3 were given''), cfg)
      | EnumParameter c names \<Rightarrow>
          (case enum_getitem c names v of
             Inl e \<Rightarrow> (Inl e, cfg)
           | Inr m \<Rightarrow> Parameter_set p k m cfg)
      | _ \<Rightarrow> Parameter_set p k v cfg)"

text \<open>\<open>Config._get_keys_and_params\<close>: the parameters sorted by \<open>order\<close>; the sort is
  stable.\<close>

definition get_keys_and_params :: "config_class \<Rightarrow> (string \<times> parameter) list" where
  "get_keys_and_params cls = sort_key (\<lambda>kp. order (snd kp)) (params cls)"

subsection \<open>JSON\<close>

text \<open>
  \<open>json.dumps\<close> and \<open>json.loads\<close> belong to the standard library. The text they
  write and read is represented by its syntax tree; an object holds its members in
  order, each name once. \<open>to_json\<close> is the encoder (an enum member is not serializable),
  \<open>of_json\<close> the decoder.
\<close>

datatype json =
    JNull
  | JBool bool
  | JInt int
  | JFloat pyfloat
  | JStr string
  | JArr "json list"
  | JObj "(string \<times> json) list"


primrec of_json :: "json \<Rightarrow> pyval" where
  "of_json JNull = PNone"
| "of_json (JBool b) = PBool b"
| "of_json (JInt n) = PInt n"
| "of_json (JFloat f) = PFloat f"
| "of_json (JStr s) = PStr s"
| "of_json (JArr js) = PList (map of_json js)"
| "of_json (JObj m) = PDict (map (map_prod id of_json) m)"

subsection \<open>Dumping and loading\<close>



text \<open>\<open>version != self.VERSION\<close>, negated: Python's equality of the decoded tag with
  the class's \<open>VERSION\<close>; a number equals the integer of the same value.\<close>

fun version_eq :: "pyval \<Rightarrow> int option \<Rightarrow> bool" where
  "version_eq v None = (v = PNone)"
| "version_eq (PInt m) (Some n) = (m = n)"
| "version_eq (PBool b) (Some n) = ((if b then 1 else 0) = n)"
| "version_eq (PFloat (Fin q)) (Some n) = (q = of_int n)"
| "version_eq _ (Some n) = False"

text \<open>\<open>Config._update_pidgets\<close> refreshes the widgets bound to the parameters; it stores
  no value and registers no handler.\<close>

definition Config_update_pidgets :: "'a config_scheme \<Rightarrow> 'a config_scheme" where
  "Config_update_pidgets cfg = cfg"

text \<open>The loop of \<open>Config._loads\<close> over the decoded members: \<open>params[k].load(self, v)\<close>
  for each, in order. What was loaded before a member raises stays loaded.\<close>

fun load_all ::
  "(string \<times> parameter) list \<Rightarrow> (string \<times> pyval) list \<Rightarrow> 'a config_scheme
     \<Rightarrow> unit res \<times> 'a config_scheme" where
  "load_all ps [] cfg = (Inr (), cfg)"
| "load_all ps (kv # d) cfg =
     (case map_of ps (fst kv) of
        None \<Rightarrow> (Inl (KeyError, fst kv), cfg)
      | Some p \<Rightarrow>
          (case Parameter_load p (fst kv) (snd kv) cfg of
             (Inl e, cfg') \<Rightarrow> (Inl e, cfg')
           | (Inr _, cfg') \<Rightarrow> load_all ps d cfg'))"

text \<open>\<open>Config._loads\<close> on the text \<open>s\<close>. The result is what the call raises, if it
  raises, and the object after the call. A text that is not an object has no
  two-argument \<open>pop\<close>. \<open>dict(pairs)\<close> keeps the last pair of a key.\<close>

definition Config_loads ::
  "config_class \<Rightarrow> json \<Rightarrow> 'a config_scheme \<Rightarrow> unit res \<times> 'a config_scheme" where
  "Config_loads cls s cfg =
     (case of_json s of
        PDict d \<Rightarrow>
          (let version = (case map_of d ''VERSION'' of None \<Rightarrow> PNone | Some v \<Rightarrow> v);
               d' = AList.delete ''VERSION'' d
           in if \<not> version_eq version (VERSION cls)
              then (Inl (ValueError, ''Configuration version mismatch''), cfg)
              else
                (case load_all (rev (get_keys_and_params cls)) d' cfg of
                   (Inl e, cfg') \<Rightarrow> (Inl e, cfg')
                 | (Inr _, cfg') \<Rightarrow> (Inr (), Config_update_pidgets cfg')))
      | PList _ \<Rightarrow> (Inl (TypeError, ''pop expected at most 1 argument, got 2''), cfg)
      | _ \<Rightarrow> (Inl (AttributeError, ''object has no attribute pop''), cfg))"

subsection \<open>Change notification\<close>




subsection \<open>Attribute assignment\<close>

text \<open>
  For \<open>Config.__setattr__\<close> an object also has its instance dictionary, which holds
  what was assigned under names that are not data descriptors of the class.
  \<open>Config_attrs\<close> are the names that \<open>Config\<close> itself defines; the names inherited from
  \<open>object\<close> are left out. Values read through the class (\<open>VERSION\<close>, the methods) are
  read there in the definitions above also after an assignment in the instance.
\<close>

record config_obj = config +
  inst_dict :: "(string \<times> pyval) list"

definition Config_attrs :: "string list" where
  "Config_attrs =
     [''State'', ''VERSION'', ''_event_handlers'', ''_Config__state'', ''__init__'', ''__str__'',
      ''_loads'', ''_dumps'', ''_reset'', ''_create_pidgets'', ''_update_pidgets'',
      ''_parameter_event_handler'', ''_get_keys_and_params'', ''_get_params'', ''_state'',
      ''check'', ''__setattr__'']"

text \<open>\<open>hasattr(self, name)\<close>: the name is a parameter or another attribute of the class,
  or is in the instance dictionary.\<close>

definition hasattr :: "config_class \<Rightarrow> 'a config_obj_scheme \<Rightarrow> string \<Rightarrow> bool" where
  "hasattr cls obj name =
     (name \<in> fst ` set (params cls) \<or> name \<in> set Config_attrs \<or> name \<in> set (class_attrs cls)
      \<or> name \<in> fst ` set (inst_dict obj))"

text \<open>\<open>hasattr\<close> reads the attribute: reading a \<open>VirtualParameter\<close> calls its
  \<open>get_fun\<close>, and what that raises leaves \<open>hasattr\<close> and \<open>__setattr__\<close>.\<close>

definition getattr_error ::
  "config_class \<Rightarrow> 'a config_obj_scheme \<Rightarrow> string \<Rightarrow> error option" where
  "getattr_error cls obj name =
     (case map_of (params cls) name of
        None \<Rightarrow> None
      | Some p \<Rightarrow>
          (case kind p of
             VirtualParameter b g s \<Rightarrow>
               (case g (param_values obj) of
                  Inl m \<Rightarrow> Some (CallbackError, m)
                | Inr v \<Rightarrow> None)
           | _ \<Rightarrow> None))"

text \<open>\<open>object.__setattr__\<close>: a parameter is a data descriptor, so its \<open>__set__\<close> is
  called; so is the setter of the property \<open>_state\<close>, which assigns \<open>__state\<close>; any other
  name is bound in the instance dictionary.\<close>

definition object_setattr ::
  "config_class \<Rightarrow> string \<Rightarrow> pyval \<Rightarrow> 'a config_obj_scheme \<Rightarrow> unit res \<times> 'a config_obj_scheme" where
  "object_setattr cls name v obj =
     (case map_of (params cls) name of
        Some p \<Rightarrow> Parameter_set p name v obj
      | None \<Rightarrow>
          if name = ''_state''
          then (Inr (), obj\<lparr>inst_dict := AList.update ''_Config__state'' v (inst_dict obj)\<rparr>)
          else (Inr (), obj\<lparr>inst_dict := AList.update name v (inst_dict obj)\<rparr>))"

definition Config_setattr ::
  "config_class \<Rightarrow> string \<Rightarrow> pyval \<Rightarrow> 'a config_obj_scheme \<Rightarrow> unit res \<times> 'a config_obj_scheme" where
  "Config_setattr cls name v obj =
     (case getattr_error cls obj name of
        Some e \<Rightarrow> (Inl e, obj)
      | None \<Rightarrow>
          if hasattr cls obj name then object_setattr cls name v obj
          else (Inl (AttributeError,
                     [CHR 0x27] @ cname cls @ [CHR 0x27] @ '' object has no attribute ''
                     @ [CHR 0x27] @ name @ [CHR 0x27]), obj))"

text \<open>A sequence of assignments, whether they raise or not.\<close>

fun assign_all ::
  "config_class \<Rightarrow> (string \<times> pyval) list \<Rightarrow> 'a config_obj_scheme \<Rightarrow> 'a config_obj_scheme" where
  "assign_all cls [] obj = obj"
| "assign_all cls (nv # nvs) obj = assign_all cls nvs (snd (Config_setattr cls (fst nv) (snd nv) obj))"

section \<open>Objects and copies\<close>

text \<open>
  \<open>ValueParameter.__get__\<close> returns \<open>copy(...)\<close> of what is stored. Whether a mutation
  of the returned object is seen by a later read depends on which objects are shared,
  so here a value is a reference: to an immutable object (\<open>None\<close>, a boolean, a number,
  a string, an enum member), given by its value, or to a mutable object (a list, an
  array) at an address of the heap. The heap maps an address to the elements of the
  object there; a new object gets the next address. \<open>refs\<close> is what the parameters store
  for the object (\<open>values[obj]\<close>, by the name of the parameter), as references.
\<close>

datatype href = Imm pyval | Ref nat

type_synonym heap = "href list list"

type_synonym refs = "(string \<times> href) list"

text \<open>\<open>copy.copy\<close>: an immutable object is returned itself; of a mutable one a new
  object with the same elements is made (the elements are shared). A reference always
  points into the heap.\<close>

definition py_copy :: "href \<Rightarrow> heap \<Rightarrow> href \<times> heap" where
  "py_copy x h =
     (case x of
        Imm v \<Rightarrow> (x, h)
      | Ref a \<Rightarrow> if a < length h then (Ref (length h), h @ [h ! a]) else (x, h))"

text \<open>\<open>ValueParameter.__get__\<close>:
  \<open>copy(self.values.get(obj, default=self.default_value))\<close>, where \<open>dflt\<close> is the reference
  in \<open>default_value\<close>.\<close>

definition ValueParameter_get_copy :: "href \<Rightarrow> refs \<Rightarrow> string \<Rightarrow> heap \<Rightarrow> href \<times> heap" where
  "ValueParameter_get_copy dflt rs k h =
     py_copy (case map_of rs k of None \<Rightarrow> dflt | Some x \<Rightarrow> x) h"

text \<open>\<open>VirtualParameter.__get__\<close>: \<open>get_fun(obj)\<close> as it is returned, not a copy.\<close>

definition VirtualParameter_get_ref :: "(refs \<Rightarrow> href) \<Rightarrow> refs \<Rightarrow> heap \<Rightarrow> href \<times> heap" where
  "VirtualParameter_get_ref get_fun rs h = (get_fun rs, h)"

definition in_heap :: "heap \<Rightarrow> href \<Rightarrow> bool" where
  "in_heap h x = (case x of Imm v \<Rightarrow> True | Ref a \<Rightarrow> a < length h)"

text \<open>Every element of every object is an object of the heap.\<close>

definition closed_heap :: "heap \<Rightarrow> bool" where
  "closed_heap h = (\<forall>obj\<in>set h. \<forall>x\<in>set obj. in_heap h x)"

text \<open>The value that a reference shows, read through the elements to the depth \<open>n\<close>;
  \<open>None\<close> when the objects nest deeper.\<close>

fun deref :: "nat \<Rightarrow> heap \<Rightarrow> href \<Rightarrow> pyval option" where
  "deref n h (Imm v) = Some v"
| "deref 0 h (Ref a) = None"
| "deref (Suc n) h (Ref a) =
     (if a < length h then map_option PList (those (map (deref n h) (h ! a))) else None)"

section \<open>An example configuration class\<close>

text \<open>A versioned configuration class with one parameter of each numeric class, an
  enum parameter and two optional parameters, and an object of it with one value set and
  two handlers registered.\<close>

definition ex_int :: parameter where
  "ex_int = \<lparr>kind = IntParameter, does_dump = True, order = 10, is_optional = False,
             default_value = PInt 5, limits = Some (Some (Fin 0), Some (Fin 10)), decimals = 2\<rparr>"

definition ex_float :: parameter where
  "ex_float = \<lparr>kind = FloatParameter, does_dump = True, order = 20, is_optional = False,
               default_value = PFloat (Fin (1 / 2)), limits = Some (Some (Fin 0), Some (Fin 1)),
               decimals = 2\<rparr>"

definition ex_enum :: parameter where
  "ex_enum = \<lparr>kind = EnumParameter ''Mode'' [''A'', ''B''], does_dump = True, order = 30,
              is_optional = False, default_value = PEnum ''Mode'' ''A'', limits = None,
              decimals = 2\<rparr>"

definition ex_range :: parameter where
  "ex_range = \<lparr>kind = FloatRangeParameter, does_dump = True, order = 5, is_optional = True,
               default_value = PList [PFloat (Fin (1 / 5)), PFloat (Fin (4 / 5))],
               limits = Some (Some (Fin 0), Some (Fin 7)), decimals = 2\<rparr>"

definition ex_repeat :: parameter where
  "ex_repeat = \<lparr>kind = IntParameter, does_dump = True, order = - 1, is_optional = True,
                default_value = PNone, limits = Some (Some (Fin 1), None), decimals = 2\<rparr>"

definition ex_class :: config_class where
  "ex_class = \<lparr>cname = ''ExampleConfig'', VERSION = Some 2,
               params = [(''gain'', ex_float), (''mode'', ex_enum), (''n'', ex_int),
                         (''range_interval'', ex_range), (''repeat'', ex_repeat)],
               class_attrs = []\<rparr>"

definition ex_cfg :: config where
  "ex_cfg = \<lparr>param_values = [(''n'', PInt 3)],
             event_handlers = [(1, \<lambda>st. (None, st)), (2, \<lambda>st. (None, st))], calls = []\<rparr>"



text \<open>A sensor parameter as it is declared, with the default 1, and as \<open>__init__\<close>
  leaves it.\<close>

definition ex_sensor_decl :: parameter where
  "ex_sensor_decl = \<lparr>kind = SensorParameter, does_dump = True, order = 0, is_optional = False,
                     default_value = PInt 1, limits = None, decimals = 2\<rparr>"

definition ex_sensor :: parameter where
  "ex_sensor = ex_sensor_decl\<lparr>default_value := PList [PInt 1]\<rparr>"

text \<open>A dump of another version of the class.\<close>

definition ex_doc_v1 :: json where
  "ex_doc_v1 = JObj [(''n'', JInt 7), (''VERSION'', JInt 1)]"

text \<open>The object with its instance dictionary after \<open>__init__\<close>.\<close>

definition ex_obj :: config_obj where
  "ex_obj = \<lparr>param_values = [(''n'', PInt 3)],
             event_handlers = [(1, \<lambda>st. (None, st)), (2, \<lambda>st. (None, st))], calls = [],
             inst_dict = [(''_Config__state'', PEnum ''State'' ''UNLOADED'')]\<rparr>"

text \<open>A heap with the list \<open>[1]\<close> at address 0 and the list \<open>[[1]]\<close>, whose element
  is the first list, at address 1.\<close>

definition ex_heap :: heap where
  "ex_heap = [[Imm (PInt 1)], [Ref 0]]"

text \<open>A parameter of the class \<open>ValueParameter\<close> itself, which keeps what it is given,
  and an object for which it stores the nested list \<open>[[1]]\<close>; as references, the
  parameter stores the object at address 1 of the example heap.\<close>

definition ex_plain :: parameter where
  "ex_plain = \<lparr>kind = ValueParameter, does_dump = True, order = 0, is_optional = False,
               default_value = PNone, limits = None, decimals = 2\<rparr>"

definition ex_cfg_nested :: config where
  "ex_cfg_nested = \<lparr>param_values = [(''x'', PList [PList [PInt 1]])], event_handlers = [],
                    calls = []\<rparr>"

definition ex_refs :: refs where
  "ex_refs = [(''x'', Ref 1)]"

text \<open>A \<open>get_fun\<close> that returns the object that the parameter \<open>x\<close> stores.\<close>

definition ex_get_fun :: "refs \<Rightarrow> href" where
  "ex_get_fun rs = (case map_of rs ''x'' of None \<Rightarrow> Imm PNone | Some x \<Rightarrow> x)"






lemmas ex_defs = ex_int_def ex_float_def ex_enum_def ex_range_def ex_repeat_def ex_class_def
  ex_cfg_def ex_doc_v1_def

lemmas sanitize_defs = sanitize_def dispatch_sanitize_def IntParameter_sanitize_def
  FloatParameter_sanitize_def FloatRangeParameter_sanitize_def SensorParameter_sanitize_def
  check_limits_def

section \<open>The errors of validation and of loading\<close>

text \<open>No error of a conversion or of a \<open>_sanitize\<close> method carries the message of the
  version check.\<close>

lemma py_int_error_msg: "py_int v = Inl e \<Longrightarrow> snd e \<noteq> ''Configuration version mismatch''"
  by (cases v rule: py_int.cases) (auto split: option.splits)

lemma py_float_error_msg: "py_float v = Inl e \<Longrightarrow> snd e \<noteq> ''Configuration version mismatch''"
  by (cases v rule: py_float.cases) (auto split: option.splits if_splits)

lemma check_limits_error_msg:
  "check_limits p x = Inl e \<Longrightarrow> snd e \<noteq> ''Configuration version mismatch''"
  by (auto simp: check_limits_def split: option.splits if_splits prod.splits)

lemma FloatParameter_sanitize_error_msg:
  "FloatParameter_sanitize p v = Inl e \<Longrightarrow> snd e \<noteq> ''Configuration version mismatch''"
  by (auto simp: FloatParameter_sanitize_def Let_def split: sum.splits if_splits
      dest: py_float_error_msg check_limits_error_msg)

lemma sanitize_error_msg: "sanitize p v = Inl e \<Longrightarrow> snd e \<noteq> ''Configuration version mismatch''"
  by (auto simp: sanitize_def dispatch_sanitize_def IntParameter_sanitize_def
      FloatRangeParameter_sanitize_def SensorParameter_sanitize_def
      split: kind.splits sum.splits if_splits pyval.splits option.splits
      dest: py_int_error_msg check_limits_error_msg FloatParameter_sanitize_error_msg)

lemma ValueParameter_set_error:
  "ValueParameter_set p k v cfg = (Inl e, cfg') \<Longrightarrow> sanitize p v = Inl e \<and> cfg' = cfg"
  by (auto simp: ValueParameter_set_def split: sum.splits)

lemma Parameter_set_error_msg:
  "Parameter_set p k v cfg = (Inl e, cfg')
   \<Longrightarrow> e \<noteq> (ValueError, ''Configuration version mismatch'')"
  by (auto simp: Parameter_set_def
      split: kind.splits option.splits prod.splits
      dest!: ValueParameter_set_error dest: sanitize_error_msg)

lemma Parameter_load_error_msg:
  "Parameter_load p k v cfg = (Inl e, cfg')
   \<Longrightarrow> e \<noteq> (ValueError, ''Configuration version mismatch'')"
  by (auto simp: Parameter_load_def enum_getitem_def
      split: kind.splits sum.splits pyval.splits if_splits
      dest: Parameter_set_error_msg)

lemma load_all_error_msg:
  "load_all ps d cfg = (Inl e, cfg') \<Longrightarrow> e \<noteq> (ValueError, ''Configuration version mismatch'')"
proof (induction d arbitrary: cfg)
  case Nil
  then show ?case by simp
next
  case (Cons kv d)
  then show ?case
    by (auto split: option.splits prod.splits sum.splits dest: Parameter_load_error_msg)
qed

text \<open>
  Claim C2, as amended. Loading a text whose \<open>VERSION\<close> member (\<open>None\<close> when there is
  none) is not equal to the \<open>VERSION\<close> of the class raises a \<open>ValueError\<close> with the
  message \<open>Configuration version mismatch\<close>. The exception class is the one that
  validation raises; what sets the error apart is its message, which no \<open>sanitize\<close>
  raises.
\<close>

theorem loads_version_mismatch:
  assumes "of_json s = PDict d"
    and "\<not> version_eq (case map_of d ''VERSION'' of None \<Rightarrow> PNone | Some v \<Rightarrow> v) (VERSION cls)"
  shows "fst (Config_loads cls s cfg) = Inl (ValueError, ''Configuration version mismatch'')
         \<and> (\<forall>p v e. sanitize p v = Inl e \<longrightarrow> snd e \<noteq> ''Configuration version mismatch'')"
  using assms by (auto simp: Config_loads_def Let_def dest: sanitize_error_msg)

theorem loads_version_mismatch_witness:
  "of_json ex_doc_v1 = PDict [(''n'', PInt 7), (''VERSION'', PInt 1)]
   \<and> \<not> version_eq (PInt 1) (VERSION ex_class)
   \<and> fst (Config_loads ex_class ex_doc_v1 ex_cfg)
       = Inl (ValueError, ''Configuration version mismatch'')
   \<and> sanitize ex_int (PInt 11) = Inl (ValueError, ''Given value is too high'')"
  using loads_version_mismatch
    [of ex_doc_v1 "[(''n'', PInt 7), (''VERSION'', PInt 1)]" ex_class ex_cfg]
  by (simp add: ex_defs sanitize_defs)

text \<open>Claim C2 as stated fails: the error of a version mismatch and the error of an
  out-of-range value are both of class \<open>ValueError\<close>.\<close>

theorem version_error_class_counterexample:
  "fst (Config_loads ex_class ex_doc_v1 ex_cfg)
     = Inl (ValueError, ''Configuration version mismatch'')
   \<and> fst (ValueParameter_set ex_int ''n'' (PInt 11) ex_cfg)
     = Inl (ValueError, ''Given value is too high'')"
  by (simp add: ex_defs Config_loads_def ValueParameter_set_def sanitize_defs)

text \<open>
  Claim C8. When \<open>Config._loads\<close> raises the version-mismatch error, the object after
  the call is the object before it: no parameter was loaded, every parameter reads
  as before.
\<close>

theorem loads_mismatch_atomic:
  assumes "fst (Config_loads cls s cfg) = Inl (ValueError, ''Configuration version mismatch'')"
  shows "snd (Config_loads cls s cfg) = cfg"
  using assms
  by (auto simp: Config_loads_def Let_def split: pyval.splits if_splits prod.splits sum.splits
      dest: load_all_error_msg)

theorem loads_mismatch_atomic_witness:
  "fst (Config_loads ex_class ex_doc_v1 ex_cfg)
     = Inl (ValueError, ''Configuration version mismatch'')
   \<and> snd (Config_loads ex_class ex_doc_v1 ex_cfg) = ex_cfg"
  using loads_mismatch_atomic [of ex_class ex_doc_v1 ex_cfg]
  by (simp add: ex_defs Config_loads_def)

section \<open>Change notification\<close>







section \<open>Attribute assignment\<close>

lemma Parameter_set_inst_dict: "inst_dict (snd (Parameter_set p k v obj)) = inst_dict obj"
  by (auto simp: Parameter_set_def ValueParameter_set_def
      split: sum.splits kind.splits option.splits prod.splits)

lemma dom_update_known: "k \<in> fst ` set al \<Longrightarrow> fst ` set (AList.update k v al) = fst ` set al"
  by (auto simp: dom_update)

lemma hasattr_object_setattr:
  assumes "hasattr cls obj name"
  shows "hasattr cls (snd (object_setattr cls name v obj)) n = hasattr cls obj n"
proof (cases "map_of (params cls) name")
  case (Some p)
  then show ?thesis
    by (simp add: object_setattr_def hasattr_def Parameter_set_inst_dict)
next
  case None
  then have "name \<notin> fst ` set (params cls)"
    by (simp add: map_of_eq_None_iff)
  with assms None show ?thesis
    by (auto simp: object_setattr_def hasattr_def dom_update Config_attrs_def)
qed

lemma hasattr_Config_setattr:
  "hasattr cls (snd (Config_setattr cls name v obj)) n = hasattr cls obj n"
proof (cases "getattr_error cls obj name")
  case (Some e)
  then show ?thesis by (simp add: Config_setattr_def)
next
  case None
  show ?thesis
  proof (cases "hasattr cls obj name")
    case False
    with None show ?thesis by (simp add: Config_setattr_def)
  next
    case True
    with None show ?thesis by (simp add: Config_setattr_def hasattr_object_setattr)
  qed
qed

lemma hasattr_assign_all: "hasattr cls (assign_all cls nvs obj) n = hasattr cls obj n"
  by (induction nvs arbitrary: obj) (simp_all add: hasattr_Config_setattr)

text \<open>
  Claim C10. Assigning to a name that the object does not have raises an
  \<open>AttributeError\<close> and leaves the object as it was; and after any sequence of
  assignments the object has exactly the attributes it had before, so none of them
  creates an attribute.
\<close>

lemma getattr_error_no_attribute: "\<not> hasattr cls obj name \<Longrightarrow> getattr_error cls obj name = None"
proof -
  assume "\<not> hasattr cls obj name"
  then have "name \<notin> fst ` set (params cls)" by (simp add: hasattr_def)
  then have "map_of (params cls) name = None" by (simp add: map_of_eq_None_iff)
  then show ?thesis by (simp add: getattr_error_def)
qed

theorem setattr_no_new_attribute:
  "(\<not> hasattr cls obj name \<longrightarrow>
      (\<exists>msg. Config_setattr cls name v obj = (Inl (AttributeError, msg), obj)))
   \<and> (\<forall>n. hasattr cls (assign_all cls nvs obj) n = hasattr cls obj n)"
  by (simp add: Config_setattr_def hasattr_assign_all getattr_error_no_attribute)

theorem setattr_no_new_attribute_witness:
  "\<not> hasattr ex_class ex_obj ''foo''
   \<and> Config_setattr ex_class ''foo'' (PInt 1) ex_obj
       = (Inl (AttributeError, [CHR 0x27] @ ''ExampleConfig'' @ [CHR 0x27] @ '' object has no attribute ''
             @ [CHR 0x27] @ ''foo'' @ [CHR 0x27]), ex_obj)
   \<and> \<not> hasattr ex_class (assign_all ex_class [(''foo'', PInt 1), (''n'', PInt 4), (''check'', PNone)] ex_obj) ''foo''
   \<and> hasattr ex_class (assign_all ex_class [(''foo'', PInt 1), (''n'', PInt 4), (''check'', PNone)] ex_obj) ''check''"
  using setattr_no_new_attribute [of ex_class ex_obj "''foo''" "PInt 1" "[(''foo'', PInt 1), (''n'', PInt 4), (''check'', PNone)]"]
  by (simp add: ex_defs ex_obj_def hasattr_def Config_attrs_def Config_setattr_def
      getattr_error_def object_setattr_def Parameter_set_def ValueParameter_set_def
      sanitize_defs)

section \<open>Reading returns a copy\<close>

lemma closed_heap_nth:
  "closed_heap h \<Longrightarrow> a < length h \<Longrightarrow> x \<in> set (h ! a) \<Longrightarrow> in_heap h x"
  by (auto simp: closed_heap_def)

text \<open>In a heap that keeps the objects of a closed heap as they are, the references
  into the closed heap show what they showed.\<close>

lemma deref_agree:
  assumes "closed_heap h" and "length h \<le> length h'" and "\<forall>b<length h. h' ! b = h ! b"
  shows "in_heap h x \<Longrightarrow> deref n h' x = deref n h x"
proof (induction n arbitrary: x)
  case 0
  then show ?case by (cases x) simp_all
next
  case (Suc n)
  show ?case
  proof (cases x)
    case (Imm v)
    then show ?thesis by simp
  next
    case (Ref a)
    with Suc.prems have a: "a < length h" by (simp add: in_heap_def)
    with assms have same: "h' ! a = h ! a" "a < length h'" by auto
    have "map (deref n h') (h ! a) = map (deref n h) (h ! a)"
    proof (rule map_cong [OF refl])
      fix y assume "y \<in> set (h ! a)"
      with assms(1) a have "in_heap h y" by (rule closed_heap_nth)
      then show "deref n h' y = deref n h y" by (rule Suc.IH)
    qed
    with Ref a same show ?thesis by (simp del: map_eq_conv)
  qed
qed

text \<open>A copy shows what the copied object shows.\<close>

lemma deref_py_copy:
  assumes "closed_heap h" and "length h \<le> length h'" and "\<forall>b<length h. h' ! b = h ! b"
    and "in_heap h x" and "py_copy x h' = (r, h1)"
  shows "deref n h1 r = deref n h x"
proof (cases x)
  case (Imm v)
  with assms(5) show ?thesis by (auto simp: py_copy_def)
next
  case (Ref a)
  with assms(4) have a: "a < length h" by (simp add: in_heap_def)
  with assms have a': "a < length h'" "h' ! a = h ! a" by auto
  with Ref assms(5) have r: "r = Ref (length h')" "h1 = h' @ [h ! a]"
    by (simp_all add: py_copy_def)
  show ?thesis
  proof (cases n)
    case 0
    with r Ref show ?thesis by simp
  next
    case (Suc m)
    have ext: "length h \<le> length h1" "\<forall>b<length h. h1 ! b = h ! b"
      using assms(2,3) r by (auto simp: nth_append)
    have "map (deref m h1) (h ! a) = map (deref m h) (h ! a)"
    proof (rule map_cong [OF refl])
      fix y assume "y \<in> set (h ! a)"
      with assms(1) a have "in_heap h y" by (rule closed_heap_nth)
      then show "deref m h1 y = deref m h y" by (rule deref_agree [OF assms(1) ext])
    qed
    with Suc r Ref a show ?thesis by (simp del: map_eq_conv)
  qed
qed

lemma py_copy_fresh:
  "py_copy x h = (Ref a, h1) \<Longrightarrow> in_heap h x \<Longrightarrow> a = length h \<and> h1 = h @ [h1 ! a]"
  by (auto simp: py_copy_def in_heap_def split: href.splits if_splits)

text \<open>
  Claim C9, as amended. Let the reference in \<open>default_value\<close> show the default that
  \<open>__init__\<close> left, which is the sanitized declared default, and let the reference that
  is stored for the object, if one is, show the value stored. Then \<open>__get__\<close> of a
  \<open>ValueParameter\<close> that is not virtual returns a reference that shows the value of the
  parameter. When it refers to a mutable object, that object is new: whatever is written
  to it, every reference into the heap as it was before the read shows what it showed,
  and a later read shows the same value again.
\<close>

theorem get_returns_copy:
  assumes heap: "closed_heap h" "in_heap h (case map_of rs k of None \<Rightarrow> dflt | Some x \<Rightarrow> x)"
    and init: "ValueParameter_init p0 = Inr p"
    and dv: "deref n h dflt = Some (default_value p)"
    and st: "\<forall>x. map_of rs k = Some x \<longrightarrow>
               (\<exists>v. map_of (param_values cfg) k = Some v \<and> deref n h x = Some v)"
      "map_of rs k = None \<longrightarrow> map_of (param_values cfg) k = None"
    and get: "ValueParameter_get_copy dflt rs k h = (r, h1)"
  shows "deref n h1 r = Some (ValueParameter_get p k cfg)
       \<and> (map_of (param_values cfg) k = None \<longrightarrow>
            sanitize p0 (default_value p0) = Inr (ValueParameter_get p k cfg))
       \<and> (\<forall>a xs. r = Ref a \<longrightarrow>
            length h \<le> a
            \<and> (\<forall>y. in_heap h y \<longrightarrow> deref n (h1[a := xs]) y = deref n h y)
            \<and> (case ValueParameter_get_copy dflt rs k (h1[a := xs]) of
                 (r', h') \<Rightarrow> deref n h' r' = Some (ValueParameter_get p k cfg)))"
proof -
  let ?x = "case map_of rs k of None \<Rightarrow> dflt | Some x \<Rightarrow> x"
  have shows_value: "deref n h ?x = Some (ValueParameter_get p k cfg)"
  proof (cases "map_of rs k")
    case None
    with st(2) dv show ?thesis by (simp add: ValueParameter_get_def)
  next
    case (Some x)
    with st(1) show ?thesis by (auto simp: ValueParameter_get_def)
  qed
  from get have c: "py_copy ?x h = (r, h1)" by (simp add: ValueParameter_get_copy_def)
  have first: "deref n h1 r = Some (ValueParameter_get p k cfg)"
    using deref_py_copy [OF heap(1) _ _ heap(2) c] shows_value by simp
  have dflt: "sanitize p0 (default_value p0) = Inr (ValueParameter_get p k cfg)"
    if "map_of (param_values cfg) k = None"
    using that init by (auto simp: ValueParameter_init_def ValueParameter_get_def split: sum.splits)
  have later: "length h \<le> a
            \<and> (\<forall>y. in_heap h y \<longrightarrow> deref n (h1[a := xs]) y = deref n h y)
            \<and> (case ValueParameter_get_copy dflt rs k (h1[a := xs]) of
                 (r', h') \<Rightarrow> deref n h' r' = Some (ValueParameter_get p k cfg))"
    if r: "r = Ref a" for a xs
  proof -
    from c r heap(2) have a: "a = length h" "h1 = h @ [h1 ! a]" using py_copy_fresh by blast+
    let ?h2 = "h1[a := xs]"
    have len: "length h \<le> length ?h2" using a by (metis length_append length_list_update le_add1)
    have same: "\<forall>b<length h. ?h2 ! b = h ! b"
      using a by (metis nth_append nth_list_update_neq less_irrefl)
    have old: "\<forall>y. in_heap h y \<longrightarrow> deref n ?h2 y = deref n h y"
      using deref_agree [OF heap(1) len same] by simp
    obtain r' h' where g: "py_copy ?x ?h2 = (r', h')" by (cases "py_copy ?x ?h2")
    from deref_py_copy [OF heap(1) len same heap(2) g] shows_value
    have "deref n h' r' = Some (ValueParameter_get p k cfg)" by simp
    with g have "case ValueParameter_get_copy dflt rs k ?h2 of
        (r', h') \<Rightarrow> deref n h' r' = Some (ValueParameter_get p k cfg)"
      by (simp add: ValueParameter_get_copy_def)
    with a(1) old show ?thesis by simp
  qed
  from first dflt later show ?thesis by blast
qed

theorem get_returns_copy_witness:
  "closed_heap ex_heap \<and> in_heap ex_heap (Ref 0) \<and> in_heap ex_heap (Ref 1)
   \<and> ValueParameter_init ex_sensor_decl = Inr ex_sensor
   \<and> deref 1 ex_heap (Ref 0) = Some (default_value ex_sensor)
   \<and> map_of (param_values ex_cfg) ''sensor'' = None
   \<and> ValueParameter_get_copy (Ref 0) [] ''sensor'' ex_heap = (Ref 2, ex_heap @ [[Imm (PInt 1)]])
   \<and> deref 1 (ex_heap @ [[Imm (PInt 1)]]) (Ref 2) = Some (PList [PInt 1])
   \<and> sanitize ex_sensor_decl (PInt 1) = Inr (PList [PInt 1])
   \<and> deref 1 (snd (ValueParameter_get_copy (Ref 0) [] ''sensor''
                      ((ex_heap @ [[Imm (PInt 1)]])[2 := [Imm (PInt 9)]])))
              (fst (ValueParameter_get_copy (Ref 0) [] ''sensor''
                      ((ex_heap @ [[Imm (PInt 1)]])[2 := [Imm (PInt 9)]])))
       = Some (PList [PInt 1])
   \<and> ValueParameter_init ex_plain = Inr ex_plain
   \<and> map_of (param_values ex_cfg_nested) ''x'' = Some (PList [PList [PInt 1]])
   \<and> deref 2 ex_heap (Ref 1) = Some (PList [PList [PInt 1]])
   \<and> ValueParameter_get_copy (Imm PNone) ex_refs ''x'' ex_heap = (Ref 2, ex_heap @ [[Ref 0]])
   \<and> deref 2 (ex_heap @ [[Ref 0]]) (Ref 2) = Some (PList [PList [PInt 1]])
   \<and> deref 2 (snd (ValueParameter_get_copy (Imm PNone) ex_refs ''x''
                      ((ex_heap @ [[Ref 0]])[2 := [Imm (PInt 9)]])))
              (fst (ValueParameter_get_copy (Imm PNone) ex_refs ''x''
                      ((ex_heap @ [[Ref 0]])[2 := [Imm (PInt 9)]])))
       = Some (PList [PList [PInt 1]])"
proof -
  have h: "closed_heap ex_heap" "in_heap ex_heap (Ref 0)" "in_heap ex_heap (Ref 1)"
    by (simp_all add: closed_heap_def in_heap_def ex_heap_def)
  have i1: "ValueParameter_init ex_sensor_decl = Inr ex_sensor"
    and s1: "sanitize ex_sensor_decl (PInt 1) = Inr (PList [PInt 1])"
    by (simp_all add: ValueParameter_init_def ex_sensor_def ex_sensor_decl_def sanitize_defs)
  have d1: "deref 1 ex_heap (Ref 0) = Some (default_value ex_sensor)"
    by (simp add: ex_heap_def ex_sensor_def)
  have n1: "map_of (param_values ex_cfg) ''sensor'' = None"
    by (simp add: ex_cfg_def)
  have g1: "ValueParameter_get_copy (Ref 0) [] ''sensor'' ex_heap
      = (Ref 2, ex_heap @ [[Imm (PInt 1)]])"
    by (simp add: ValueParameter_get_copy_def py_copy_def ex_heap_def)
  have v1: "ValueParameter_get ex_sensor ''sensor'' ex_cfg = PList [PInt 1]"
    by (simp add: ValueParameter_get_def ex_cfg_def ex_sensor_def)
  note t1 = get_returns_copy [where h = ex_heap and rs = "[]" and k = "''sensor''"
      and dflt = "Ref 0" and ?p0.0 = ex_sensor_decl and p = ex_sensor and n = 1 and cfg = ex_cfg
      and r = "Ref 2" and ?h1.0 = "ex_heap @ [[Imm (PInt 1)]]"]
  have c1: "deref 1 (ex_heap @ [[Imm (PInt 1)]]) (Ref 2) = Some (PList [PInt 1])
      \<and> deref 1 (snd (ValueParameter_get_copy (Ref 0) [] ''sensor''
                      ((ex_heap @ [[Imm (PInt 1)]])[2 := [Imm (PInt 9)]])))
              (fst (ValueParameter_get_copy (Ref 0) [] ''sensor''
                      ((ex_heap @ [[Imm (PInt 1)]])[2 := [Imm (PInt 9)]])))
       = Some (PList [PInt 1])"
    using t1 h i1 d1 n1 g1 v1 by (auto simp: case_prod_beta)
  have i2: "ValueParameter_init ex_plain = Inr ex_plain"
    by (simp add: ValueParameter_init_def ex_plain_def sanitize_defs)
  have m2: "map_of (param_values ex_cfg_nested) ''x'' = Some (PList [PList [PInt 1]])"
    "map_of ex_refs ''x'' = Some (Ref 1)"
    by (simp_all add: ex_cfg_nested_def ex_refs_def)
  have d2: "deref 2 ex_heap (Ref 1) = Some (PList [PList [PInt 1]])"
    "deref 2 ex_heap (Imm PNone) = Some (default_value ex_plain)"
    by (simp_all add: ex_heap_def ex_plain_def eval_nat_numeral)
  have g2: "ValueParameter_get_copy (Imm PNone) ex_refs ''x'' ex_heap
      = (Ref 2, ex_heap @ [[Ref 0]])"
    by (simp add: ValueParameter_get_copy_def py_copy_def ex_heap_def ex_refs_def)
  have v2: "ValueParameter_get ex_plain ''x'' ex_cfg_nested = PList [PList [PInt 1]]"
    by (simp add: ValueParameter_get_def ex_cfg_nested_def)
  note t2 = get_returns_copy [where h = ex_heap and rs = ex_refs and k = "''x''"
      and dflt = "Imm PNone" and ?p0.0 = ex_plain and p = ex_plain and n = 2
      and cfg = ex_cfg_nested and r = "Ref 2" and ?h1.0 = "ex_heap @ [[Ref 0]]"]
  have c2: "deref 2 (ex_heap @ [[Ref 0]]) (Ref 2) = Some (PList [PList [PInt 1]])
      \<and> deref 2 (snd (ValueParameter_get_copy (Imm PNone) ex_refs ''x''
                      ((ex_heap @ [[Ref 0]])[2 := [Imm (PInt 9)]])))
              (fst (ValueParameter_get_copy (Imm PNone) ex_refs ''x''
                      ((ex_heap @ [[Ref 0]])[2 := [Imm (PInt 9)]])))
       = Some (PList [PList [PInt 1]])"
    using t2 h i2 d2 m2 g2 v2 by (auto simp: case_prod_beta)
  from h i1 s1 d1 n1 g1 c1 i2 m2(1) d2(1) g2 c2 show ?thesis by blast
qed

text \<open>Claim C9 as stated fails. The copy is shallow: the element of the copy of
  \<open>[[1]]\<close> is the element of the stored list, and after 9 is appended to it through the
  returned object a later read shows \<open>[[1, 9]]\<close>. And \<open>VirtualParameter.__get__\<close>
  returns what \<open>get_fun\<close> returns, here the stored list itself: a write to the returned
  object is seen by the next read.\<close>

theorem copy_counterexample:
  "ValueParameter_get_copy (Imm PNone) ex_refs ''x'' ex_heap = (Ref 2, ex_heap @ [[Ref 0]])
   \<and> deref 2 (ex_heap @ [[Ref 0]]) (Ref 2) = Some (PList [PList [PInt 1]])
   \<and> (ex_heap @ [[Ref 0]]) ! 2 ! 0 = Ref 0
   \<and> deref 2 (snd (ValueParameter_get_copy (Imm PNone) ex_refs ''x''
                      ((ex_heap @ [[Ref 0]])[0 := [Imm (PInt 1), Imm (PInt 9)]])))
              (fst (ValueParameter_get_copy (Imm PNone) ex_refs ''x''
                      ((ex_heap @ [[Ref 0]])[0 := [Imm (PInt 1), Imm (PInt 9)]])))
       = Some (PList [PList [PInt 1, PInt 9]])
   \<and> VirtualParameter_get_ref ex_get_fun ex_refs ex_heap = (Ref 1, ex_heap)
   \<and> deref 2 ex_heap (Ref 1) = Some (PList [PList [PInt 1]])
   \<and> deref 2 (snd (VirtualParameter_get_ref ex_get_fun ex_refs (ex_heap[1 := [Imm (PInt 9)]])))
              (fst (VirtualParameter_get_ref ex_get_fun ex_refs (ex_heap[1 := [Imm (PInt 9)]])))
       = Some (PList [PInt 9])"
  by (simp add: ValueParameter_get_copy_def VirtualParameter_get_ref_def py_copy_def ex_heap_def
      ex_refs_def ex_get_fun_def eval_nat_numeral)

section \<open>Validation of numbers and ranges\<close>

text \<open>What the parameters of the example class answer to some values.\<close>

lemma ex_float_rounds: "sanitize ex_float (PFloat (Fin (251 / 250))) = Inr (PFloat (Fin 1))"
  by code_simp

lemma ex_int_fraction: "sanitize ex_int (PFloat (Fin (5 / 2))) = Inl (ValueError, ''Not an integer'')"
  by code_simp

lemma ex_repeat_none: "sanitize ex_repeat PNone = Inr PNone"
  by code_simp

lemma ex_int_high: "sanitize ex_int (PFloat (Fin 11)) = Inl (ValueError, ''Given value is too high'')"
  by code_simp

lemma ex_int_str: "py_int (PStr '' 7 '') = Inr 7 \<and> check_limits ex_int (Fin (of_int 7)) = Inr ()"
  by code_simp

lemma ex_range_none: "sanitize ex_range PNone = Inr PNone"
  by code_simp

lemma ex_range_san:
  "FloatParameter_sanitize ex_range (PFloat (Fin (3 / 2))) = Inr (Fin (3 / 2))
   \<and> FloatParameter_sanitize ex_range (PInt 1) = Inr (Fin 1)
   \<and> FloatParameter_sanitize ex_range (PStr ''2.5'') = Inr (Fin (5 / 2))"
  by code_simp

text \<open>
  Claim C1, as amended. For an \<open>IntParameter\<close> or \<open>FloatParameter\<close> with limits,
  \<open>load\<close> is \<open>__set__\<close>, and \<open>__set__\<close> checks the limits on the converted value:
  for an \<open>IntParameter\<close> on \<open>int(value)\<close>, for a value that is not a float with a
  fractional part; for a \<open>FloatParameter\<close> on \<open>float(value)\<close> rounded to \<open>decimals\<close>
  decimals. A converted value strictly below a lower limit or strictly above an upper
  limit raises a \<open>ValueError\<close> and nothing is stored; otherwise the converted value is
  stored.
\<close>

theorem set_checks_limits:
  assumes lim: "limits p = Some (lower, upper)"
    and num: "kind p = IntParameter \<and> (\<forall>f. v = PFloat f \<longrightarrow> is_integer f) \<and> py_int v = Inr n
                \<and> x = Fin (of_int n) \<and> w = PInt n
              \<or> kind p = FloatParameter \<and> py_float v = Inr f \<and> x = py_round f (decimals p)
                \<and> w = PFloat x"
  shows "Parameter_load p k v cfg = ValueParameter_set p k v cfg
       \<and> ValueParameter_set p k v cfg =
           (if (case lower of None \<Rightarrow> False | Some l \<Rightarrow> fl_less x l)
            then (Inl (ValueError, ''Given value is too low''), cfg)
            else if (case upper of None \<Rightarrow> False | Some u \<Rightarrow> fl_less u x)
            then (Inl (ValueError, ''Given value is too high''), cfg)
            else (Inr (), cfg\<lparr>param_values := AList.update k w (param_values cfg)\<rparr>))"
proof -
  have nn: "v \<noteq> PNone" using num by auto
  have ld: "Parameter_load p k v cfg = ValueParameter_set p k v cfg"
    using num by (auto simp: Parameter_load_def Parameter_set_def)
  have "ValueParameter_set p k v cfg =
           (if (case lower of None \<Rightarrow> False | Some l \<Rightarrow> fl_less x l)
            then (Inl (ValueError, ''Given value is too low''), cfg)
            else if (case upper of None \<Rightarrow> False | Some u \<Rightarrow> fl_less u x)
            then (Inl (ValueError, ''Given value is too high''), cfg)
            else (Inr (), cfg\<lparr>param_values := AList.update k w (param_values cfg)\<rparr>))"
    using num
  proof
    assume i: "kind p = IntParameter \<and> (\<forall>f. v = PFloat f \<longrightarrow> is_integer f) \<and> py_int v = Inr n
                \<and> x = Fin (of_int n) \<and> w = PInt n"
    then have "\<not> (case v of PFloat f \<Rightarrow> \<not> is_integer f | _ \<Rightarrow> False)"
      by (auto split: pyval.splits)
    with i lim nn show ?thesis
      by (auto simp: ValueParameter_set_def sanitize_def dispatch_sanitize_def
          IntParameter_sanitize_def check_limits_def)
  next
    assume "kind p = FloatParameter \<and> py_float v = Inr f \<and> x = py_round f (decimals p)
                \<and> w = PFloat x"
    with lim nn show ?thesis
      by (auto simp: ValueParameter_set_def sanitize_def dispatch_sanitize_def
          FloatParameter_sanitize_def check_limits_def Let_def)
  qed
  with ld show ?thesis by simp
qed

theorem set_checks_limits_witness:
  "limits ex_int = Some (Some (Fin 0), Some (Fin 10))
   \<and> kind ex_int = IntParameter \<and> py_int (PFloat (Fin 11)) = Inr 11
   \<and> ValueParameter_set ex_int ''n'' (PFloat (Fin 11)) ex_cfg = (Inl (ValueError, ''Given value is too high''), ex_cfg)
   \<and> limits ex_float = Some (Some (Fin 0), Some (Fin 1))
   \<and> kind ex_float = FloatParameter \<and> py_float (PFloat (Fin (251 / 250))) = Inr (Fin (251 / 250))
   \<and> py_round (Fin (251 / 250)) (decimals ex_float) = Fin 1
   \<and> Parameter_load ex_float ''gain'' (PFloat (Fin (251 / 250))) ex_cfg
      = (Inr (), ex_cfg\<lparr>param_values := [(''n'', PInt 3), (''gain'', PFloat (Fin 1))]\<rparr>)"
proof -
  have r: "py_round (Fin (251 / 250)) (decimals ex_float) = Fin 1"
    by code_simp
  show ?thesis
    using set_checks_limits [of ex_int "Some (Fin 0)" "Some (Fin 10)" "PFloat (Fin 11)" 11 "Fin 11" "PInt 11"
        "Fin 0" "''n''" ex_cfg]
      set_checks_limits [of ex_float "Some (Fin 0)" "Some (Fin 1)" "PFloat (Fin (251 / 250))" 0 "Fin 1" "PFloat (Fin 1)"
        "Fin (251 / 250)" "''gain''" ex_cfg] r
    by (simp add: ex_defs)
qed

text \<open>Claim C1 as stated fails: 1.004 is above the upper limit 1 of a
  \<open>FloatParameter\<close> with two decimals and is accepted, stored as 1.0; 2.5 is within the
  limits 0 and 10 of an \<open>IntParameter\<close> and is refused.\<close>

theorem limits_counterexample:
  "fl_less (Fin 1) (Fin (251 / 250))
   \<and> ValueParameter_set ex_float ''gain'' (PFloat (Fin (251 / 250))) ex_cfg
      = (Inr (), ex_cfg\<lparr>param_values := [(''n'', PInt 3), (''gain'', PFloat (Fin 1))]\<rparr>)
   \<and> \<not> fl_less (Fin (5 / 2)) (Fin 0) \<and> \<not> fl_less (Fin 10) (Fin (5 / 2))
   \<and> ValueParameter_set ex_int ''n'' (PFloat (Fin (5 / 2))) ex_cfg
      = (Inl (ValueError, ''Not an integer''), ex_cfg)"
  by (simp add: ValueParameter_set_def ex_float_rounds ex_int_fraction) (simp add: ex_cfg_def)

text \<open>
  Claim C5, as amended. For an \<open>IntParameter\<close>, setting a float that is not integral
  raises a \<open>ValueError\<close>; a value that is not such a float, that \<open>int()\<close> converts and
  whose conversion passes the limits is stored as that integer; and whatever a
  successful \<open>__set__\<close> stores is an integer, or \<open>None\<close> when the parameter is optional
  and \<open>None\<close> was set.
\<close>

theorem int_coercion:
  assumes "kind p = IntParameter"
  shows "(\<forall>f. v = PFloat f \<and> \<not> is_integer f \<longrightarrow>
            ValueParameter_set p k v cfg = (Inl (ValueError, ''Not an integer''), cfg))
       \<and> (\<forall>n. (\<forall>f. v = PFloat f \<longrightarrow> is_integer f) \<and> py_int v = Inr n
                \<and> check_limits p (Fin (of_int n)) = Inr () \<longrightarrow>
            ValueParameter_set p k v cfg
              = (Inr (), cfg\<lparr>param_values := AList.update k (PInt n) (param_values cfg)\<rparr>))
       \<and> (\<forall>cfg'. ValueParameter_set p k v cfg = (Inr (), cfg') \<longrightarrow>
            (\<exists>n. py_int v = Inr n \<and> map_of (param_values cfg') k = Some (PInt n))
            \<or> (is_optional p \<and> v = PNone \<and> map_of (param_values cfg') k = Some PNone))"
proof (intro conjI allI impI)
  fix f assume "v = PFloat f \<and> \<not> is_integer f"
  with assms show "ValueParameter_set p k v cfg = (Inl (ValueError, ''Not an integer''), cfg)"
    by (simp add: ValueParameter_set_def sanitize_def dispatch_sanitize_def
        IntParameter_sanitize_def)
next
  fix n assume a: "(\<forall>f. v = PFloat f \<longrightarrow> is_integer f) \<and> py_int v = Inr n
                \<and> check_limits p (Fin (of_int n)) = Inr ()"
  then have "\<not> (case v of PFloat f \<Rightarrow> \<not> is_integer f | _ \<Rightarrow> False)" "v \<noteq> PNone"
    by (auto split: pyval.splits)
  with a assms show "ValueParameter_set p k v cfg
              = (Inr (), cfg\<lparr>param_values := AList.update k (PInt n) (param_values cfg)\<rparr>)"
    by (simp add: ValueParameter_set_def sanitize_def dispatch_sanitize_def
        IntParameter_sanitize_def)
next
  fix cfg' assume "ValueParameter_set p k v cfg = (Inr (), cfg')"
  with assms show "(\<exists>n. py_int v = Inr n \<and> map_of (param_values cfg') k = Some (PInt n))
            \<or> (is_optional p \<and> v = PNone \<and> map_of (param_values cfg') k = Some PNone)"
    by (auto simp: ValueParameter_set_def sanitize_def dispatch_sanitize_def
        IntParameter_sanitize_def update_Some_unfold split: sum.splits if_splits)
qed

theorem int_coercion_witness:
  "kind ex_int = IntParameter
   \<and> ValueParameter_set ex_int ''n'' (PFloat (Fin (5 / 2))) ex_cfg
       = (Inl (ValueError, ''Not an integer''), ex_cfg)
   \<and> ValueParameter_set ex_int ''n'' (PStr '' 7 '') ex_cfg
       = (Inr (), ex_cfg\<lparr>param_values := [(''n'', PInt 7)]\<rparr>)"
proof -
  have f: "\<not> is_integer (Fin (5 / 2))" by code_simp
  show ?thesis
    using int_coercion [of ex_int "PFloat (Fin (5 / 2))" "''n''" ex_cfg]
      int_coercion [of ex_int "PStr '' 7 ''" "''n''" ex_cfg] ex_int_str f
    by (simp add: ex_int_def) (simp add: ex_cfg_def)
qed

text \<open>Claim C5 as stated fails: an optional \<open>IntParameter\<close> set to \<open>None\<close> stores
  \<open>None\<close>, which is not an integer; and the integral float 11.0 is not stored by a
  parameter with the upper limit 10.\<close>

theorem int_stored_counterexample:
  "kind ex_repeat = IntParameter
   \<and> ValueParameter_set ex_repeat ''repeat'' PNone ex_cfg
       = (Inr (), ex_cfg\<lparr>param_values := [(''n'', PInt 3), (''repeat'', PNone)]\<rparr>)
   \<and> is_integer (Fin 11)
   \<and> ValueParameter_set ex_int ''n'' (PFloat (Fin 11)) ex_cfg
       = (Inl (ValueError, ''Given value is too high''), ex_cfg)"
  by (simp add: ValueParameter_set_def ex_repeat_none ex_int_high) (simp add: ex_cfg_def ex_repeat_def)

text \<open>
  Claim C6, as amended. For a \<open>FloatRangeParameter\<close>, unless the parameter is optional
  and the value is \<open>None\<close>: a value that \<open>list()\<close> cannot iterate, or turns into other
  than exactly two elements, raises a \<open>ValueError\<close>; a value that \<open>list()\<close> turns into two
  elements (the two elements of a sequence, the two characters of a string, the two keys
  of a mapping), each sanitized as a float, raises a \<open>ValueError\<close> when the first is
  strictly greater than the second, and otherwise the two sanitized floats are stored.
\<close>

theorem range_validation:
  assumes "kind p = FloatRangeParameter" and "\<not> (is_optional p \<and> v = PNone)"
  shows "((\<forall>vs. py_list v = Inr vs \<longrightarrow> length vs \<noteq> 2) \<longrightarrow>
            (\<exists>msg. ValueParameter_set p k v cfg = (Inl (ValueError, msg), cfg)))
       \<and> (\<forall>x y a b. py_list v = Inr [x, y] \<and> FloatParameter_sanitize p x = Inr a
                \<and> FloatParameter_sanitize p y = Inr b \<longrightarrow>
            ValueParameter_set p k v cfg =
              (if fl_less b a then (Inl (ValueError, ''Invalid range''), cfg)
               else (Inr (), cfg\<lparr>param_values :=
                              AList.update k (PList [PFloat a, PFloat b]) (param_values cfg)\<rparr>)))"
  using assms
  by (auto simp: ValueParameter_set_def sanitize_def dispatch_sanitize_def
      FloatRangeParameter_sanitize_def split: sum.splits)

theorem range_validation_witness:
  "kind ex_range = FloatRangeParameter
   \<and> ValueParameter_set ex_range ''range_interval'' (PInt 3) ex_cfg
       = (Inl (ValueError, ''Not a valid range''), ex_cfg)
   \<and> ValueParameter_set ex_range ''range_interval'' (PList [PFloat (Fin (3 / 2)), PInt 1]) ex_cfg
       = (Inl (ValueError, ''Invalid range''), ex_cfg)
   \<and> ValueParameter_set ex_range ''range_interval'' (PList [PInt 1, PStr ''2.5'']) ex_cfg
       = (Inr (), ex_cfg\<lparr>param_values :=
            [(''n'', PInt 3), (''range_interval'', PList [PFloat (Fin 1), PFloat (Fin (5 / 2))])]\<rparr>)"
  using range_validation [of ex_range "PInt 3" "''range_interval''" ex_cfg]
    range_validation [of ex_range "PList [PFloat (Fin (3 / 2)), PInt 1]" "''range_interval''" ex_cfg]
    range_validation [of ex_range "PList [PInt 1, PStr ''2.5'']" "''range_interval''" ex_cfg]
    ex_range_san
  apply (simp add: ex_range_def)
  apply (simp add: ex_cfg_def ValueParameter_set_def sanitize_def dispatch_sanitize_def
      FloatRangeParameter_sanitize_def)
  done

lemma ex_range_mapping:
  "sanitize ex_range (PDict [(''1'', PNone), (''2'', PNone)])
     = Inr (PList [PFloat (Fin 1), PFloat (Fin 2)])"
  by code_simp

text \<open>Claim C6 as stated fails: \<open>None\<close> is not a sequence of two elements, and an
  optional \<open>FloatRangeParameter\<close> accepts and stores it; a mapping with the two keys
  \<open>1\<close> and \<open>2\<close> is not a sequence either, and the parameter stores the range from 1.0 to
  2.0 for it, since \<open>list()\<close> gives its keys.\<close>

theorem range_accepts_counterexample:
  "kind ex_range = FloatRangeParameter \<and> py_list PNone = Inl (TypeError, ''object is not iterable'')
   \<and> ValueParameter_set ex_range ''range_interval'' PNone ex_cfg
       = (Inr (), ex_cfg\<lparr>param_values := [(''n'', PInt 3), (''range_interval'', PNone)]\<rparr>)
   \<and> ValueParameter_set ex_range ''range_interval'' (PDict [(''1'', PNone), (''2'', PNone)]) ex_cfg
       = (Inr (), ex_cfg\<lparr>param_values :=
            [(''n'', PInt 3), (''range_interval'', PList [PFloat (Fin 1), PFloat (Fin 2)])]\<rparr>)"
  by (simp add: ValueParameter_set_def ex_range_none ex_range_mapping)
    (simp add: ex_cfg_def ex_range_def)

section \<open>Dumping and loading\<close>










lemma set_get_keys_and_params [simp]: "set (get_keys_and_params cls) = set (params cls)"
  by (simp add: get_keys_and_params_def)








section \<open>Loading what was dumped\<close>


























end
